theory Spec2Isabelle
  imports Complex_Main "HOL-Library.AList"
begin

section \<open>JavaScript values, errors and number rendering\<close>

text \<open>
  A thrown JavaScript exception is its constructor name and its message:
  \<^verbatim>\<open>new Error("...")\<close> is \<open>JsError ''Error'' ''...''\<close>, a rejected \<^verbatim>\<open>fetch\<close> is a
  \<open>JsError ''TypeError'' _\<close>. A function that may throw returns \<open>js_error + 'a\<close>.
\<close>

datatype js_error = JsError (error_name: string) (message: string)

text \<open>
  Values that arrive through \<^verbatim>\<open>response.json()\<close>. An object is the list of its own
  properties in creation order; reading a property that is not there gives \<open>Undefined\<close>.
\<close>

datatype jsval =
    Undefined
  | Null
  | Bool bool
  | Num rat
  | Str string
  | Arr "jsval list"
  | Obj "(string \<times> jsval) list"

type_synonym obj = "(string \<times> jsval) list"

definition get_prop :: "obj \<Rightarrow> string \<Rightarrow> jsval" where
  "get_prop video k = (case map_of video k of None \<Rightarrow> Undefined | Some v \<Rightarrow> v)"

text \<open>Reading a property of a thrown error. An object made by \<^verbatim>\<open>new Error(message)\<close> has
  a name and a message; the program gives it nothing else, so any other property it reads
  from it is \<^verbatim>\<open>undefined\<close>.\<close>

definition error_prop :: "js_error \<Rightarrow> string \<Rightarrow> jsval" where
  "error_prop e k =
     (if k = ''name'' then Str (error_name e)
      else if k = ''message'' then Str (message e)
      else Undefined)"

text \<open>Decimal rendering of a non-negative integer, as a template literal renders
  \<^verbatim>\<open>response.status\<close>.\<close>

definition digit_char :: "nat \<Rightarrow> char" where
  "digit_char d = ''0123456789'' ! d"

fun show_nat :: "nat \<Rightarrow> string" where
  "show_nat n = (if n < 10 then [digit_char n] else show_nat (n div 10) @ [digit_char (n mod 10)])"

declare show_nat.simps [simp del]

definition show_int :: "int \<Rightarrow> string" where
  "show_int i = (if i < 0 then ''-'' @ show_nat (nat (- i)) else show_nat (nat i))"

section \<open>The transport: requests, responses, fetch\<close>

record js_file =
  file_name :: string
  file_bytes :: string

datatype form_entry = FileEntry js_file | TextEntry string

text \<open>\<open>JsonBody v\<close> stands for the text \<^verbatim>\<open>JSON.stringify(v)\<close>; \<open>FormBody\<close> is a
  \<^verbatim>\<open>FormData\<close> with its entries in append order.\<close>

datatype request_body = NoBody | JsonBody jsval | FormBody "(string \<times> form_entry) list"

record request =
  url :: string
  http_method :: string
  headers :: "(string \<times> string) list"
  req_body :: request_body

text \<open>
  A received response: its status, what \<^verbatim>\<open>response.text()\<close> resolves to and what
  \<^verbatim>\<open>response.json()\<close> settles with (the parsed payload, of the shape \<open>'j\<close> its caller
  reads, or the parse error). \<^verbatim>\<open>response.ok\<close> is true for the statuses 200 to 299.
\<close>

record 'j response =
  status :: nat
  body_text :: string
  json :: "js_error + 'j"

definition ok :: "'j response \<Rightarrow> bool" where
  "ok r = (200 \<le> status r \<and> status r \<le> 299)"

text \<open>
  What the client runs in: the environment variable, the browser's local storage and the
  network. \<open>fetch w req\<close> is \<open>Inl e\<close> when the request fails without a response.
\<close>

record 'j web =
  NEXT_PUBLIC_API_URL :: "string option"
  localStorage :: "string \<rightharpoonup> string"
  fetch :: "request \<Rightarrow> js_error + 'j response"

text \<open>Each client method returns what it resolves or rejects with, and the requests it
  issued, in order.\<close>

type_synonym 'a call = "(js_error + 'a) \<times> request list"

section \<open>The API client\<close>

definition API_BASE_URL :: "'j web \<Rightarrow> string" where
  "API_BASE_URL w =
     (case NEXT_PUBLIC_API_URL w of
        None \<Rightarrow> ''http://localhost:8000''
      | Some u \<Rightarrow> if u = [] then ''http://localhost:8000'' else u)"

definition getAuthHeaders :: "'j web \<Rightarrow> js_error + (string \<times> string) list" where
  "getAuthHeaders w =
     (case localStorage w ''firebase_token'' of
        None \<Rightarrow> Inl (JsError ''Error'' ''No authentication token found'')
      | Some token \<Rightarrow>
          if token = [] then Inl (JsError ''Error'' ''No authentication token found'')
          else Inr [(''Authorization'', ''Bearer '' @ token),
                    (''Content-Type'', ''application/json'')])"

definition getAuthHeadersForFormData :: "'j web \<Rightarrow> js_error + (string \<times> string) list" where
  "getAuthHeadersForFormData w =
     (case localStorage w ''firebase_token'' of
        None \<Rightarrow> Inl (JsError ''Error'' ''No authentication token found'')
      | Some token \<Rightarrow>
          if token = [] then Inl (JsError ''Error'' ''No authentication token found'')
          else Inr [(''Authorization'', ''Bearer '' @ token)])"

definition uploadVideo :: "'j web \<Rightarrow> js_file \<Rightarrow> string \<Rightarrow> 'j call" where
  "uploadVideo w file title =
     (let formData = [(''file'', FileEntry file), (''title'', TextEntry title)] in
      case getAuthHeadersForFormData w of
        Inl e \<Rightarrow> (Inl e, [])
      | Inr hdrs \<Rightarrow>
          (let req = \<lparr>url = API_BASE_URL w @ ''/api/videos/upload'', http_method = ''POST'',
                      headers = hdrs, req_body = FormBody formData\<rparr> in
           case fetch w req of
             Inl e \<Rightarrow> (Inl e, [req])
           | Inr response \<Rightarrow>
               if \<not> ok response
               then (Inl (JsError ''Error''
                       (''Upload failed: '' @ show_nat (status response) @ '' - '' @ body_text response)),
                     [req])
               else (json response, [req])))"

text \<open>The object literal of \<^verbatim>\<open>getUserVideos\<close> and \<^verbatim>\<open>getVideo\<close>: the spread copies every
  property of the server's object, then four properties are written, each replacing a
  property of that name in place or being appended.\<close>

definition map_video :: "obj \<Rightarrow> obj" where
  "map_video video =
     AList.update ''thumbnail'' (get_prop video ''thumbnail'')
       (AList.update ''minioPath'' (get_prop video ''minio_path'')
         (AList.update ''createdAt'' (get_prop video ''created_at'')
           (AList.update ''indexingStatus'' (get_prop video ''indexing_status'') video)))"

definition getUserVideos :: "(obj list) web \<Rightarrow> (obj list) call" where
  "getUserVideos w =
     (case getAuthHeaders w of
        Inl e \<Rightarrow> (Inl e, [])
      | Inr hdrs \<Rightarrow>
          (let req = \<lparr>url = API_BASE_URL w @ ''/api/videos'', http_method = ''GET'',
                      headers = hdrs, req_body = NoBody\<rparr> in
           case fetch w req of
             Inl e \<Rightarrow> (Inl e, [req])
           | Inr response \<Rightarrow>
               if \<not> ok response
               then (Inl (JsError ''Error''
                       (''Failed to fetch videos: '' @ show_nat (status response) @ '' - ''
                          @ body_text response)),
                     [req])
               else (case json response of
                       Inl e \<Rightarrow> (Inl e, [req])
                     | Inr videos \<Rightarrow> (Inr (map map_video videos), [req]))))"

definition getVideo :: "obj web \<Rightarrow> string \<Rightarrow> obj call" where
  "getVideo w videoId =
     (case getAuthHeaders w of
        Inl e \<Rightarrow> (Inl e, [])
      | Inr hdrs \<Rightarrow>
          (let req = \<lparr>url = API_BASE_URL w @ ''/api/videos/'' @ videoId, http_method = ''GET'',
                      headers = hdrs, req_body = NoBody\<rparr> in
           case fetch w req of
             Inl e \<Rightarrow> (Inl e, [req])
           | Inr response \<Rightarrow>
               if \<not> ok response
               then (Inl (JsError ''Error''
                       (''Failed to fetch video: '' @ show_nat (status response) @ '' - ''
                          @ body_text response)),
                     [req])
               else (case json response of
                       Inl e \<Rightarrow> (Inl e, [req])
                     | Inr video \<Rightarrow> (Inr (map_video video), [req]))))"

text \<open>\<open>limit\<close> is \<open>None\<close> when the caller leaves the argument out; the defaults are 5 and
  10.\<close>

definition globalSearch :: "'j web \<Rightarrow> string \<Rightarrow> nat option \<Rightarrow> 'j call" where
  "globalSearch w query limit_arg =
     (let limit = (case limit_arg of None \<Rightarrow> 5 | Some l \<Rightarrow> l) in
      case getAuthHeaders w of
        Inl e \<Rightarrow> (Inl e, [])
      | Inr hdrs \<Rightarrow>
          (let req = \<lparr>url = API_BASE_URL w @ ''/api/search/global'', http_method = ''POST'',
                      headers = hdrs,
                      req_body = JsonBody (Obj [(''query'', Str query), (''limit'', Num (of_nat limit))])\<rparr> in
           case fetch w req of
             Inl e \<Rightarrow> (Inl e, [req])
           | Inr response \<Rightarrow>
               if \<not> ok response
               then (Inl (JsError ''Error''
                       (''Search failed: '' @ show_nat (status response) @ '' - '' @ body_text response)),
                     [req])
               else (json response, [req])))"

definition searchInVideo :: "'j web \<Rightarrow> string \<Rightarrow> string \<Rightarrow> nat option \<Rightarrow> 'j call" where
  "searchInVideo w videoId query limit_arg =
     (let limit = (case limit_arg of None \<Rightarrow> 10 | Some l \<Rightarrow> l) in
      case getAuthHeaders w of
        Inl e \<Rightarrow> (Inl e, [])
      | Inr hdrs \<Rightarrow>
          (let req = \<lparr>url = API_BASE_URL w @ ''/api/search/video/'' @ videoId, http_method = ''POST'',
                      headers = hdrs,
                      req_body = JsonBody (Obj [(''query'', Str query), (''limit'', Num (of_nat limit))])\<rparr> in
           case fetch w req of
             Inl e \<Rightarrow> (Inl e, [req])
           | Inr response \<Rightarrow>
               if \<not> ok response
               then (Inl (JsError ''Error''
                       (''Search failed: '' @ show_nat (status response) @ '' - '' @ body_text response)),
                     [req])
               else (json response, [req])))"

definition getVideoStreamUrl :: "'j web \<Rightarrow> string \<Rightarrow> 'j call" where
  "getVideoStreamUrl w videoId =
     (case getAuthHeaders w of
        Inl e \<Rightarrow> (Inl e, [])
      | Inr hdrs \<Rightarrow>
          (let req = \<lparr>url = API_BASE_URL w @ ''/api/videos/'' @ videoId @ ''/stream'',
                      http_method = ''GET'', headers = hdrs, req_body = NoBody\<rparr> in
           case fetch w req of
             Inl e \<Rightarrow> (Inl e, [req])
           | Inr response \<Rightarrow>
               if \<not> ok response
               then (Inl (JsError ''Error''
                       (''Failed to get stream URL: '' @ show_nat (status response) @ '' - ''
                          @ body_text response)),
                     [req])
               else (json response, [req])))"

definition deleteVideo :: "'j web \<Rightarrow> string \<Rightarrow> bool call" where
  "deleteVideo w videoId =
     (case getAuthHeaders w of
        Inl e \<Rightarrow> (Inl e, [])
      | Inr hdrs \<Rightarrow>
          (let req = \<lparr>url = API_BASE_URL w @ ''/api/videos/'' @ videoId, http_method = ''DELETE'',
                      headers = hdrs, req_body = NoBody\<rparr> in
           case fetch w req of
             Inl e \<Rightarrow> (Inl e, [req])
           | Inr response \<Rightarrow>
               if \<not> ok response
               then (Inl (JsError ''Error''
                       (''Failed to delete video: '' @ show_nat (status response) @ '' - ''
                          @ body_text response)),
                     [req])
               else (Inr True, [req])))"

definition testAuth :: "'j web \<Rightarrow> 'j call" where
  "testAuth w =
     (case getAuthHeaders w of
        Inl e \<Rightarrow> (Inl e, [])
      | Inr hdrs \<Rightarrow>
          (let req = \<lparr>url = API_BASE_URL w @ ''/health'', http_method = ''GET'',
                      headers = hdrs, req_body = NoBody\<rparr> in
           case fetch w req of
             Inl e \<Rightarrow> (Inl e, [req])
           | Inr response \<Rightarrow>
               if \<not> ok response
               then (Inl (JsError ''Error''
                       (''Auth test failed: '' @ show_nat (status response) @ '' - ''
                          @ body_text response)),
                     [req])
               else (json response, [req])))"

text \<open>The test \<^verbatim>\<open>!token\<close> of both header builders: \<^verbatim>\<open>getItem\<close> gave \<^verbatim>\<open>null\<close>, or the
  empty string.\<close>

definition no_credential :: "'j web \<Rightarrow> bool" where
  "no_credential w =
     (localStorage w ''firebase_token'' = None \<or> localStorage w ''firebase_token'' = Some [])"

section \<open>The session provider\<close>

record firebase_user =
  uid :: string
  email :: string

datatype log_entry = ConsoleLog string | ConsoleError string js_error

text \<open>
  The three React state cells of \<^verbatim>\<open>AuthProvider\<close>, the browser's local storage, the
  console, and the number of \<^verbatim>\<open>refreshToken\<close> calls that are waiting at their
  \<^verbatim>\<open>await user.getIdToken(true)\<close>.
\<close>

record auth_state =
  user :: "firebase_user option"
  token :: "string option"
  loading :: bool
  storage :: "string \<rightharpoonup> string"
  console :: "log_entry list"
  in_flight :: nat

definition initial_state :: "(string \<rightharpoonup> string) \<Rightarrow> auth_state" where
  "initial_state ls =
     \<lparr>user = None, token = None, loading = True, storage = ls, console = [], in_flight = 0\<rparr>"

text \<open>
  The callback given to \<^verbatim>\<open>onAuthStateChanged\<close>, run with the provider's user and with what
  \<^verbatim>\<open>user.getIdToken()\<close> settles with (not looked at when the user is \<^verbatim>\<open>null\<close>). Nothing is
  written before the \<^verbatim>\<open>await\<close>, so the whole effect happens when the token settles.
\<close>

definition authStateChanged ::
  "firebase_user option \<Rightarrow> js_error + string \<Rightarrow> auth_state \<Rightarrow> auth_state" where
  "authStateChanged u getIdToken st =
     (let st' =
        (case u of
           Some usr \<Rightarrow>
             (case getIdToken of
                Inr idToken \<Rightarrow>
                  st\<lparr>token := Some idToken, user := Some usr,
                     storage := (storage st)(''firebase_token'' \<mapsto> idToken),
                     console := console st @ [ConsoleLog ''User authenticated, token set'']\<rparr>
              | Inl error \<Rightarrow>
                  st\<lparr>console := console st @ [ConsoleError ''Error getting ID token:'' error],
                     token := None, user := None,
                     storage := (storage st)(''firebase_token'' := None)\<rparr>)
         | None \<Rightarrow>
             st\<lparr>token := None, user := None,
                storage := (storage st)(''firebase_token'' := None),
                console := console st @ [ConsoleLog ''User signed out, token cleared'']\<rparr>)
      in st'\<lparr>loading := False\<rparr>)"

text \<open>What one call of \<^verbatim>\<open>refreshToken\<close> writes once its \<^verbatim>\<open>user.getIdToken(true)\<close> has
  settled.\<close>

definition refreshToken :: "js_error + string \<Rightarrow> auth_state \<Rightarrow> auth_state" where
  "refreshToken getIdToken st =
     (case getIdToken of
        Inr idToken \<Rightarrow>
          st\<lparr>token := Some idToken, storage := (storage st)(''firebase_token'' \<mapsto> idToken)\<rparr>
      | Inl error \<Rightarrow>
          st\<lparr>console := console st @ [ConsoleError ''Error refreshing token:'' error]\<rparr>)"

text \<open>\<^verbatim>\<open>signIn\<close>, \<^verbatim>\<open>signUp\<close> and \<^verbatim>\<open>logout\<close> await the provider's call and do nothing else:
  they settle as the provider's call does and write no state.\<close>

definition signIn :: "js_error + unit \<Rightarrow> auth_state \<Rightarrow> (js_error + unit) \<times> auth_state" where
  "signIn signInWithEmailAndPassword st = (signInWithEmailAndPassword, st)"

definition signUp :: "js_error + unit \<Rightarrow> auth_state \<Rightarrow> (js_error + unit) \<times> auth_state" where
  "signUp createUserWithEmailAndPassword st = (createUserWithEmailAndPassword, st)"

definition logout :: "js_error + unit \<Rightarrow> auth_state \<Rightarrow> (js_error + unit) \<times> auth_state" where
  "logout signOut st = (signOut, st)"

text \<open>
  What can happen to a mounted provider. The interval that calls \<^verbatim>\<open>refreshToken\<close> exists
  while the \<^verbatim>\<open>user\<close> cell is set; a call that has started waits for the provider and
  finishes at some later time, whatever has happened in between.
\<close>

datatype auth_event =
    AuthStateChanged "firebase_user option" "js_error + string"
  | RefreshTimer
  | RefreshSettled "js_error + string"
  | Logout "js_error + unit"

fun fire :: "auth_event \<Rightarrow> auth_state \<Rightarrow> auth_state option" where
  "fire (AuthStateChanged u r) st = Some (authStateChanged u r st)"
| "fire RefreshTimer st =
     (if user st = None then None else Some (st\<lparr>in_flight := Suc (in_flight st)\<rparr>))"
| "fire (RefreshSettled r) st =
     (if in_flight st = 0 then None
      else Some (refreshToken r (st\<lparr>in_flight := in_flight st - 1\<rparr>)))"
| "fire (Logout r) st = Some (snd (logout r st))"

fun run :: "auth_event list \<Rightarrow> auth_state \<Rightarrow> auth_state option" where
  "run [] st = Some st"
| "run (e # es) st = (case fire e st of None \<Rightarrow> None | Some st' \<Rightarrow> run es st')"

text \<open>
  A notification clears the session when it reports no user, or when the token of the user
  it reports cannot be fetched. A run is calm when every event of it can happen and no
  clearing notification arrives while a refresh is waiting for its token.
\<close>

fun clears :: "auth_event \<Rightarrow> bool" where
  "clears (AuthStateChanged None r) = True"
| "clears (AuthStateChanged (Some usr) (Inl e)) = True"
| "clears e = False"

fun calm :: "auth_event list \<Rightarrow> auth_state \<Rightarrow> bool" where
  "calm [] st = True"
| "calm (e # es) st =
     (case fire e st of
        None \<Rightarrow> False
      | Some st' \<Rightarrow> (if clears e \<and> 0 < in_flight st then False else calm es st'))"

section \<open>Display entries\<close>

text \<open>
  \<^verbatim>\<open>VideoItem\<close> without its \<^verbatim>\<open>id\<close> is what \<^verbatim>\<open>VideoUpload\<close> hands to \<^verbatim>\<open>onUpload\<close>;
  \<^verbatim>\<open>SearchResult\<close> extends \<^verbatim>\<open>VideoItem\<close>. \<^verbatim>\<open>indexingStatus\<close> is the string the
  running program holds.
\<close>

record new_video =
  title :: string
  thumbnail :: string
  duration :: string
  indexingStatus :: string
  createdAt :: string
  minioPath :: string

record video_item = new_video +
  item_id :: string

record search_result = video_item +
  relevanceScore :: rat
  matchedTimestamp :: rat

text \<open>A \<^verbatim>\<open>video_id\<close> as the server sends it, a number or a string, and its rendering by
  \<^verbatim>\<open>toString()\<close> and by a template literal.\<close>

datatype id_value = NumId int | StrId string

definition toString :: "id_value \<Rightarrow> string" where
  "toString v = (case v of NumId n \<Rightarrow> show_int n | StrId s \<Rightarrow> s)"

record video_ref =
  video_id :: id_value

record hit = video_ref +
  hit_title :: string
  similarity :: rat
  timestamp :: rat

text \<open>\<^verbatim>\<open>encodeURIComponent\<close> on a string held as its UTF-8 bytes: every byte but the
  unreserved characters becomes \<^verbatim>\<open>%XX\<close>.\<close>

definition unreserved :: "char \<Rightarrow> bool" where
  "unreserved c =
     (c \<in> set ''ABCDEFGHIJKLMNOPQRSTUVWXYZabcdefghijklmnopqrstuvwxyz0123456789-_.!~*()''
      \<or> c = CHR 0x27)"

definition hex_char :: "nat \<Rightarrow> char" where
  "hex_char d = ''0123456789ABCDEF'' ! d"

definition encodeURIComponent :: "string \<Rightarrow> string" where
  "encodeURIComponent s =
     concat (map (\<lambda>c. if unreserved c then [c]
                       else [CHR ''%'', hex_char (of_char c div 16), hex_char (of_char c mod 16)]) s)"

text \<open>\<^verbatim>\<open>new Date().toISOString().split("T")[0]\<close>, given the ISO text of the current
  time.\<close>

definition today :: "string \<Rightarrow> string" where
  "today now_iso = takeWhile (\<lambda>c. c \<noteq> CHR ''T'') now_iso"

section \<open>GlobalSearch: converting hits\<close>

definition to_SearchResult :: "string \<Rightarrow> hit \<Rightarrow> search_result" where
  "to_SearchResult now_iso result =
     \<lparr>title = hit_title result,
      thumbnail = ''/placeholder.svg?height=200&width=300&query=''
                    @ encodeURIComponent (hit_title result),
      duration = ''0:00'',
      indexingStatus = ''COMPLETED'',
      createdAt = today now_iso,
      minioPath = '''',
      item_id = toString (video_id result),
      relevanceScore = similarity result,
      matchedTimestamp = timestamp result\<rparr>"

definition convert_results :: "string \<Rightarrow> hit list \<Rightarrow> search_result list" where
  "convert_results now_iso results = map (to_SearchResult now_iso) results"

section \<open>VideoUpload\<close>

record upload_state =
  selected_file :: "js_file option"
  upload_title :: string
  uploading :: bool
  uploadProgress :: nat
  upload_console :: "log_entry list"

text \<open>\<open>handleUpload\<close> returns the new state, what \<^verbatim>\<open>onUpload\<close> was called with (if it
  was) and the requests issued.\<close>

definition handleUpload ::
  "video_ref web \<Rightarrow> string \<Rightarrow> upload_state \<Rightarrow> upload_state \<times> new_video option \<times> request list" where
  "handleUpload w now_iso st =
     (case selected_file st of
        None \<Rightarrow> (st, None, [])
      | Some f \<Rightarrow>
          if upload_title st = [] then (st, None, [])
          else
            (let st1 = st\<lparr>uploading := True, uploadProgress := 0\<rparr>;
                 (res, reqs) = uploadVideo w f (upload_title st)
             in case res of
                  Inr result \<Rightarrow>
                    (let newVideo =
                       \<lparr>title = upload_title st,
                        thumbnail = ''/placeholder.svg?height=200&width=300&query=''
                                      @ encodeURIComponent (upload_title st) @ '' video thumbnail'',
                        duration = ''0:00'',
                        indexingStatus = ''PENDING'',
                        createdAt = today now_iso,
                        minioPath = ''/videos/'' @ toString (video_id result)\<rparr>
                     in (st1\<lparr>selected_file := None, upload_title := '''',
                             uploading := False, uploadProgress := 0\<rparr>,
                         Some newVideo, reqs))
                | Inl error \<Rightarrow>
                    (st1\<lparr>upload_console :=
                            upload_console st1 @ [ConsoleError ''Upload failed:'' error],
                          uploading := False, uploadProgress := 0\<rparr>,
                     None, reqs)))"

section \<open>VideoLibrary\<close>

record library_state =
  videos :: "video_item list"
  videos_loading :: bool
  searchResults :: "video_item list"
  isSearching :: bool
  load_error :: string
  deletingId :: "string option"
  deleteError :: string
  library_console :: "log_entry list"

text \<open>\<^verbatim>\<open>Date.now().toString()\<close> is the decimal text of the clock's milliseconds.\<close>

definition handleVideoUpload :: "nat \<Rightarrow> new_video \<Rightarrow> library_state \<Rightarrow> library_state" where
  "handleVideoUpload now_ms newVideo st =
     (let videoWithId =
        \<lparr>title = title newVideo, thumbnail = thumbnail newVideo, duration = duration newVideo,
         indexingStatus = indexingStatus newVideo, createdAt = createdAt newVideo,
         minioPath = minioPath newVideo, item_id = show_nat now_ms\<rparr>
      in st\<lparr>videos := videoWithId # videos st\<rparr>)"

definition handleDelete ::
  "'j web \<Rightarrow> string \<Rightarrow> library_state \<Rightarrow> library_state \<times> request list" where
  "handleDelete w videoId st =
     (let st1 = st\<lparr>library_console :=
                     library_console st @ [ConsoleLog (''Deleting video: '' @ videoId)],
                   deletingId := Some videoId, deleteError := ''''\<rparr>;
          (res, reqs) = deleteVideo w videoId;
          st2 = (case res of
                   Inr _ \<Rightarrow> st1\<lparr>videos := filter (\<lambda>v. item_id v \<noteq> videoId) (videos st1)\<rparr>
                 | Inl err \<Rightarrow>
                     st1\<lparr>deleteError := (if message err = [] then ''Failed to delete video.''
                                          else message err)\<rparr>)
      in (st2\<lparr>deletingId := None\<rparr>, reqs))"

text \<open>The three status functions. A \<^verbatim>\<open>switch\<close> that matches no case falls off its end and
  the function returns \<^verbatim>\<open>undefined\<close>, here \<open>None\<close>. An icon is the component rendered and
  its class.\<close>

record icon =
  component :: string
  className :: string

definition getStatusIcon :: "string \<Rightarrow> icon option" where
  "getStatusIcon indexing_status =
     (if indexing_status = ''COMPLETED'' then
        Some \<lparr>component = ''CheckCircle'', className = ''h-4 w-4 text-green-600''\<rparr>
      else if indexing_status = ''INDEXING'' then
        Some \<lparr>component = ''Clock'', className = ''h-4 w-4 text-yellow-600 animate-pulse''\<rparr>
      else if indexing_status = ''PENDING'' then
        Some \<lparr>component = ''Clock'', className = ''h-4 w-4 text-gray-600''\<rparr>
      else if indexing_status = ''FAILED'' then
        Some \<lparr>component = ''AlertCircle'', className = ''h-4 w-4 text-red-600''\<rparr>
      else None)"

definition getStatusText :: "string \<Rightarrow> string option" where
  "getStatusText indexing_status =
     (if indexing_status = ''COMPLETED'' then Some ''Ready''
      else if indexing_status = ''INDEXING'' then Some ''Processing...''
      else if indexing_status = ''PENDING'' then Some ''Queued''
      else if indexing_status = ''FAILED'' then Some ''Failed''
      else None)"

definition getStatusVariant :: "string \<Rightarrow> string option" where
  "getStatusVariant indexing_status =
     (if indexing_status = ''COMPLETED'' then Some ''default''
      else if indexing_status = ''INDEXING'' then Some ''secondary''
      else if indexing_status = ''PENDING'' then Some ''outline''
      else if indexing_status = ''FAILED'' then Some ''destructive''
      else None)"

section \<open>Concrete worlds\<close>

text \<open>A browser with nothing in local storage and no network, and one that holds a
  credential and whose server answers every request with the given response.\<close>

definition signed_out_web :: "'j web" where
  "signed_out_web =
     \<lparr>NEXT_PUBLIC_API_URL = None, localStorage = Map.empty,
      fetch = (\<lambda>req. Inl (JsError ''TypeError'' ''Failed to fetch''))\<rparr>"

definition answering_web :: "'j response \<Rightarrow> 'j web" where
  "answering_web r =
     \<lparr>NEXT_PUBLIC_API_URL = Some ''https://api.example'',
      localStorage = [''firebase_token'' \<mapsto> ''tok''],
      fetch = (\<lambda>req. Inr r)\<rparr>"

text \<open>A response that refuses a request: its body is the given text, which is no JSON.\<close>

definition refusal :: "nat \<Rightarrow> string \<Rightarrow> 'j response" where
  "refusal s t =
     \<lparr>status = s, body_text = t, json = Inl (JsError ''SyntaxError'' ''Unexpected token'')\<rparr>"

text \<open>A provider that has been told of a signed-in user whose token is ''tok''.\<close>

definition signed_in_state :: auth_state where
  "signed_in_state =
     authStateChanged (Some \<lparr>uid = ''u1'', email = ''ann@example.org''\<rparr>) (Inr ''tok'')
       (initial_state Map.empty)"


definition upload_response :: "video_ref response" where
  "upload_response = \<lparr>status = 200, body_text = '''', json = Inr \<lparr>video_id = StrId ''42''\<rparr>\<rparr>"

definition upload_form :: upload_state where
  "upload_form =
     \<lparr>selected_file = Some \<lparr>file_name = ''clip.mp4'', file_bytes = ''abc''\<rparr>,
      upload_title = ''Test'', uploading = False, uploadProgress = 0, upload_console = []\<rparr>"

definition video_7 :: video_item where
  "video_7 =
     \<lparr>title = ''Beach'', thumbnail = '''', duration = ''0:00'', indexingStatus = ''COMPLETED'',
      createdAt = ''2024-01-01'', minioPath = ''/v/7'', item_id = ''7''\<rparr>"

definition library_with_7 :: library_state where
  "library_with_7 =
     \<lparr>videos = [video_7], videos_loading = False, searchResults = [], isSearching = False,
      load_error = '''', deletingId = None, deleteError = '''', library_console = []\<rparr>"

definition two_hits :: "hit list" where
  "two_hits =
     [\<lparr>video_id = NumId 7, hit_title = ''Beach day'', similarity = 87 / 100, timestamp = 12\<rparr>,
      \<lparr>video_id = NumId 3, hit_title = ''Dog'', similarity = 1 / 2, timestamp = 90\<rparr>]"

section \<open>Decimal rendering\<close>

lemma digit_char_inj:
  assumes "d < 10" and "d' < 10" and "digit_char d = digit_char d'"
  shows "d = d'"
proof -
  have "distinct ''0123456789''" and "length ''0123456789'' = 10"
    by simp_all
  with assms show ?thesis
    unfolding digit_char_def by (metis nth_eq_iff_index_eq)
qed

lemma digit_char_not_space:
  assumes "d < 10"
  shows "digit_char d \<noteq> CHR '' ''"
proof -
  from assms have "digit_char d \<in> set ''0123456789''"
    unfolding digit_char_def by (intro nth_mem) simp
  then show ?thesis by auto
qed

lemma show_nat_no_space: "CHR '' '' \<notin> set (show_nat n)"
proof (induction n rule: show_nat.induct)
  case (1 n)
  show ?case
  proof (cases "n < 10")
    case True
    then show ?thesis
      using digit_char_not_space [of n] by (simp add: show_nat.simps [of n])
  next
    case False
    then show ?thesis
      using 1 digit_char_not_space [of "n mod 10"] by (simp add: show_nat.simps [of n])
  qed
qed

lemma show_nat_nonempty: "show_nat n \<noteq> []"
  by (simp add: show_nat.simps [of n])

lemma show_nat_inj: "show_nat n = show_nat m \<Longrightarrow> n = m"
proof (induction n arbitrary: m rule: show_nat.induct)
  case (1 n)
  show ?case
  proof (cases "n < 10")
    case n: True
    show ?thesis
    proof (cases "m < 10")
      case True
      with n 1(2) show ?thesis
        by (simp add: show_nat.simps [of n] show_nat.simps [of m] digit_char_inj)
    next
      case False
      with n 1(2) show_nat_nonempty [of "m div 10"] show ?thesis
        by (simp add: show_nat.simps [of n] show_nat.simps [of m] Cons_eq_append_conv)
    qed
  next
    case n: False
    show ?thesis
    proof (cases "m < 10")
      case True
      with n 1(2) show_nat_nonempty [of "n div 10"] show ?thesis
        by (simp add: show_nat.simps [of n] show_nat.simps [of m] append_eq_Cons_conv)
    next
      case False
      with n 1(2) have eq: "show_nat (n div 10) = show_nat (m div 10)"
        and d: "digit_char (n mod 10) = digit_char (m mod 10)"
        by (simp_all add: show_nat.simps [of n] show_nat.simps [of m])
      from 1(1) [OF n eq] have "n div 10 = m div 10" .
      moreover from d have "n mod 10 = m mod 10"
        by (intro digit_char_inj) simp_all
      ultimately show ?thesis by (metis div_mult_mod_eq)
    qed
  qed
qed

text \<open>The text after a method's label, \<^verbatim>\<open>${response.status} - ${errorText}\<close>, can be read
  back: the digits up to the first space are the status, what follows \<^verbatim>\<open>" - "\<close> is the
  body.\<close>

lemma status_and_body_determined:
  assumes "show_nat s @ '' - '' @ t = show_nat s' @ '' - '' @ t'"
  shows "s = s' \<and> t = t'"
proof -
  let ?P = "\<lambda>c. c \<noteq> CHR '' ''"
  have tw: "takeWhile ?P (show_nat k @ '' - '' @ u) = show_nat k" for k u
  proof -
    have "\<And>x. x \<in> set (show_nat k) \<Longrightarrow> x \<noteq> CHR '' ''"
      using show_nat_no_space [of k] by auto
    then show ?thesis by (subst takeWhile_append2) simp_all
  qed
  from assms have "takeWhile ?P (show_nat s @ '' - '' @ t)
      = takeWhile ?P (show_nat s' @ '' - '' @ t')"
    by simp
  then have e: "show_nat s = show_nat s'" by (simp only: tw)
  then have "s = s'" by (rule show_nat_inj)
  moreover from assms e have "t = t'" by simp
  ultimately show ?thesis by simp
qed

lemma show_nat_404: "show_nat 404 = ''404''"
  by (simp add: show_nat.simps digit_char_def)

section \<open>The API client: credentials\<close>

lemma getAuthHeaders_no_credential:
  "no_credential w \<Longrightarrow> getAuthHeaders w = Inl (JsError ''Error'' ''No authentication token found'')"
  by (auto simp: no_credential_def getAuthHeaders_def)

lemma getAuthHeadersForFormData_no_credential:
  "no_credential w \<Longrightarrow>
     getAuthHeadersForFormData w = Inl (JsError ''Error'' ''No authentication token found'')"
  by (auto simp: no_credential_def getAuthHeadersForFormData_def)

lemma signed_out_web_no_credential: "no_credential signed_out_web"
  by (simp add: no_credential_def signed_out_web_def)

text \<open>
  C1. Every method of the API client (\<^verbatim>\<open>uploadVideo\<close>, \<^verbatim>\<open>getUserVideos\<close>, \<^verbatim>\<open>getVideo\<close>,
  \<^verbatim>\<open>globalSearch\<close>, \<^verbatim>\<open>searchInVideo\<close>, \<^verbatim>\<open>getVideoStreamUrl\<close>, \<^verbatim>\<open>deleteVideo\<close>,
  \<^verbatim>\<open>testAuth\<close>), called when local storage holds no bearer credential, fails with the
  error "No authentication token found" and has issued no request.
\<close>

theorem no_credential_fails_before_fetch:
  "(\<forall>(w :: 'a web) f title. no_credential w \<longrightarrow>
      uploadVideo w f title = (Inl (JsError ''Error'' ''No authentication token found''), []))
 \<and> (\<forall>w. no_credential w \<longrightarrow>
      getUserVideos w = (Inl (JsError ''Error'' ''No authentication token found''), []))
 \<and> (\<forall>w videoId. no_credential w \<longrightarrow>
      getVideo w videoId = (Inl (JsError ''Error'' ''No authentication token found''), []))
 \<and> (\<forall>(w :: 'b web) query limit. no_credential w \<longrightarrow>
      globalSearch w query limit = (Inl (JsError ''Error'' ''No authentication token found''), []))
 \<and> (\<forall>(w :: 'c web) videoId query limit. no_credential w \<longrightarrow>
      searchInVideo w videoId query limit
        = (Inl (JsError ''Error'' ''No authentication token found''), []))
 \<and> (\<forall>(w :: 'd web) videoId. no_credential w \<longrightarrow>
      getVideoStreamUrl w videoId = (Inl (JsError ''Error'' ''No authentication token found''), []))
 \<and> (\<forall>(w :: 'e web) videoId. no_credential w \<longrightarrow>
      deleteVideo w videoId = (Inl (JsError ''Error'' ''No authentication token found''), []))
 \<and> (\<forall>(w :: 'f web). no_credential w \<longrightarrow>
      testAuth w = (Inl (JsError ''Error'' ''No authentication token found''), []))"
  by (simp add: uploadVideo_def getUserVideos_def getVideo_def globalSearch_def searchInVideo_def
      getVideoStreamUrl_def deleteVideo_def testAuth_def getAuthHeaders_no_credential
      getAuthHeadersForFormData_no_credential)

theorem no_credential_fails_before_fetch_witness:
  "no_credential (signed_out_web :: unit web)
 \<and> uploadVideo (signed_out_web :: unit web) \<lparr>file_name = ''clip.mp4'', file_bytes = ''abc''\<rparr> ''Test''
      = (Inl (JsError ''Error'' ''No authentication token found''), [])
 \<and> getUserVideos signed_out_web = (Inl (JsError ''Error'' ''No authentication token found''), [])
 \<and> getVideo signed_out_web ''7'' = (Inl (JsError ''Error'' ''No authentication token found''), [])
 \<and> globalSearch (signed_out_web :: unit web) ''a dog'' (Some 5)
      = (Inl (JsError ''Error'' ''No authentication token found''), [])
 \<and> searchInVideo (signed_out_web :: unit web) ''7'' ''a dog'' None
      = (Inl (JsError ''Error'' ''No authentication token found''), [])
 \<and> getVideoStreamUrl (signed_out_web :: unit web) ''7''
      = (Inl (JsError ''Error'' ''No authentication token found''), [])
 \<and> deleteVideo (signed_out_web :: unit web) ''7''
      = (Inl (JsError ''Error'' ''No authentication token found''), [])
 \<and> testAuth (signed_out_web :: unit web)
      = (Inl (JsError ''Error'' ''No authentication token found''), [])"
  by (simp add: no_credential_fails_before_fetch signed_out_web_no_credential)

section \<open>The API client: responses outside 200 to 299\<close>

lemma deleteVideo_non_2xx:
  assumes "snd (deleteVideo w videoId) = [req]" and "fetch w req = Inr r" and "\<not> ok r"
  shows "fst (deleteVideo w videoId)
          = Inl (JsError ''Error''
                  (''Failed to delete video: '' @ show_nat (status r) @ '' - '' @ body_text r))"
  using assms by (auto simp: deleteVideo_def Let_def split: sum.splits if_splits)

text \<open>
  C2, as the code has it. When a credential is stored and the response to a method's
  request has a status outside 200 to 299, the method has issued that one request and
  throws a plain \<^verbatim>\<open>Error\<close>: it never returns a value then. The error's message is the
  method's label followed by the decimal status, \<^verbatim>\<open>" - "\<close> and the response's body text,
  and the only status and body text that give this message are the response's own. This
  holds for each of the eight methods.
\<close>

theorem non_2xx_throws_message:
  "(\<forall>(w :: 'a web) f title tok req r.
        localStorage w ''firebase_token'' = Some tok \<longrightarrow> tok \<noteq> [] \<longrightarrow>
        req = \<lparr>url = API_BASE_URL w @ ''/api/videos/upload'', http_method = ''POST'',
                 headers = [(''Authorization'', ''Bearer '' @ tok)],
                 req_body = FormBody [(''file'', FileEntry f), (''title'', TextEntry title)]\<rparr> \<longrightarrow>
        fetch w req = Inr r \<longrightarrow> \<not> ok r \<longrightarrow>
        uploadVideo w f title
          = (Inl (JsError ''Error'' (''Upload failed: '' @ show_nat (status r) @ '' - '' @ body_text r)),
             [req])
      \<and> (\<forall>s t. ''Upload failed: '' @ show_nat s @ '' - '' @ t
                 = ''Upload failed: '' @ show_nat (status r) @ '' - '' @ body_text r \<longrightarrow>
               s = status r \<and> t = body_text r))
 \<and> (\<forall>w tok req r.
        localStorage w ''firebase_token'' = Some tok \<longrightarrow> tok \<noteq> [] \<longrightarrow>
        req = \<lparr>url = API_BASE_URL w @ ''/api/videos'', http_method = ''GET'',
                 headers = [(''Authorization'', ''Bearer '' @ tok), (''Content-Type'', ''application/json'')],
                 req_body = NoBody\<rparr> \<longrightarrow>
        fetch w req = Inr r \<longrightarrow> \<not> ok r \<longrightarrow>
        getUserVideos w
          = (Inl (JsError ''Error'' (''Failed to fetch videos: '' @ show_nat (status r) @ '' - '' @ body_text r)),
             [req])
      \<and> (\<forall>s t. ''Failed to fetch videos: '' @ show_nat s @ '' - '' @ t
                 = ''Failed to fetch videos: '' @ show_nat (status r) @ '' - '' @ body_text r \<longrightarrow>
               s = status r \<and> t = body_text r))
 \<and> (\<forall>w videoId tok req r.
        localStorage w ''firebase_token'' = Some tok \<longrightarrow> tok \<noteq> [] \<longrightarrow>
        req = \<lparr>url = API_BASE_URL w @ ''/api/videos/'' @ videoId, http_method = ''GET'',
                 headers = [(''Authorization'', ''Bearer '' @ tok), (''Content-Type'', ''application/json'')],
                 req_body = NoBody\<rparr> \<longrightarrow>
        fetch w req = Inr r \<longrightarrow> \<not> ok r \<longrightarrow>
        getVideo w videoId
          = (Inl (JsError ''Error'' (''Failed to fetch video: '' @ show_nat (status r) @ '' - '' @ body_text r)),
             [req])
      \<and> (\<forall>s t. ''Failed to fetch video: '' @ show_nat s @ '' - '' @ t
                 = ''Failed to fetch video: '' @ show_nat (status r) @ '' - '' @ body_text r \<longrightarrow>
               s = status r \<and> t = body_text r))
 \<and> (\<forall>(w :: 'b web) query limit tok req r.
        localStorage w ''firebase_token'' = Some tok \<longrightarrow> tok \<noteq> [] \<longrightarrow>
        req = \<lparr>url = API_BASE_URL w @ ''/api/search/global'', http_method = ''POST'',
                 headers = [(''Authorization'', ''Bearer '' @ tok), (''Content-Type'', ''application/json'')],
                 req_body = JsonBody (Obj [(''query'', Str query),
                     (''limit'', Num (of_nat (case limit of None \<Rightarrow> 5 | Some l \<Rightarrow> l)))])\<rparr> \<longrightarrow>
        fetch w req = Inr r \<longrightarrow> \<not> ok r \<longrightarrow>
        globalSearch w query limit
          = (Inl (JsError ''Error'' (''Search failed: '' @ show_nat (status r) @ '' - '' @ body_text r)),
             [req])
      \<and> (\<forall>s t. ''Search failed: '' @ show_nat s @ '' - '' @ t
                 = ''Search failed: '' @ show_nat (status r) @ '' - '' @ body_text r \<longrightarrow>
               s = status r \<and> t = body_text r))
 \<and> (\<forall>(w :: 'c web) videoId query limit tok req r.
        localStorage w ''firebase_token'' = Some tok \<longrightarrow> tok \<noteq> [] \<longrightarrow>
        req = \<lparr>url = API_BASE_URL w @ ''/api/search/video/'' @ videoId, http_method = ''POST'',
                 headers = [(''Authorization'', ''Bearer '' @ tok), (''Content-Type'', ''application/json'')],
                 req_body = JsonBody (Obj [(''query'', Str query),
                     (''limit'', Num (of_nat (case limit of None \<Rightarrow> 10 | Some l \<Rightarrow> l)))])\<rparr> \<longrightarrow>
        fetch w req = Inr r \<longrightarrow> \<not> ok r \<longrightarrow>
        searchInVideo w videoId query limit
          = (Inl (JsError ''Error'' (''Search failed: '' @ show_nat (status r) @ '' - '' @ body_text r)),
             [req])
      \<and> (\<forall>s t. ''Search failed: '' @ show_nat s @ '' - '' @ t
                 = ''Search failed: '' @ show_nat (status r) @ '' - '' @ body_text r \<longrightarrow>
               s = status r \<and> t = body_text r))
 \<and> (\<forall>(w :: 'd web) videoId tok req r.
        localStorage w ''firebase_token'' = Some tok \<longrightarrow> tok \<noteq> [] \<longrightarrow>
        req = \<lparr>url = API_BASE_URL w @ ''/api/videos/'' @ videoId @ ''/stream'', http_method = ''GET'',
                 headers = [(''Authorization'', ''Bearer '' @ tok), (''Content-Type'', ''application/json'')],
                 req_body = NoBody\<rparr> \<longrightarrow>
        fetch w req = Inr r \<longrightarrow> \<not> ok r \<longrightarrow>
        getVideoStreamUrl w videoId
          = (Inl (JsError ''Error'' (''Failed to get stream URL: '' @ show_nat (status r) @ '' - '' @ body_text r)),
             [req])
      \<and> (\<forall>s t. ''Failed to get stream URL: '' @ show_nat s @ '' - '' @ t
                 = ''Failed to get stream URL: '' @ show_nat (status r) @ '' - '' @ body_text r \<longrightarrow>
               s = status r \<and> t = body_text r))
 \<and> (\<forall>(w :: 'e web) videoId tok req r.
        localStorage w ''firebase_token'' = Some tok \<longrightarrow> tok \<noteq> [] \<longrightarrow>
        req = \<lparr>url = API_BASE_URL w @ ''/api/videos/'' @ videoId, http_method = ''DELETE'',
                 headers = [(''Authorization'', ''Bearer '' @ tok), (''Content-Type'', ''application/json'')],
                 req_body = NoBody\<rparr> \<longrightarrow>
        fetch w req = Inr r \<longrightarrow> \<not> ok r \<longrightarrow>
        deleteVideo w videoId
          = (Inl (JsError ''Error'' (''Failed to delete video: '' @ show_nat (status r) @ '' - '' @ body_text r)),
             [req])
      \<and> (\<forall>s t. ''Failed to delete video: '' @ show_nat s @ '' - '' @ t
                 = ''Failed to delete video: '' @ show_nat (status r) @ '' - '' @ body_text r \<longrightarrow>
               s = status r \<and> t = body_text r))
 \<and> (\<forall>(w :: 'f web) tok req r.
        localStorage w ''firebase_token'' = Some tok \<longrightarrow> tok \<noteq> [] \<longrightarrow>
        req = \<lparr>url = API_BASE_URL w @ ''/health'', http_method = ''GET'',
                 headers = [(''Authorization'', ''Bearer '' @ tok), (''Content-Type'', ''application/json'')],
                 req_body = NoBody\<rparr> \<longrightarrow>
        fetch w req = Inr r \<longrightarrow> \<not> ok r \<longrightarrow>
        testAuth w
          = (Inl (JsError ''Error'' (''Auth test failed: '' @ show_nat (status r) @ '' - '' @ body_text r)),
             [req])
      \<and> (\<forall>s t. ''Auth test failed: '' @ show_nat s @ '' - '' @ t
                 = ''Auth test failed: '' @ show_nat (status r) @ '' - '' @ body_text r \<longrightarrow>
               s = status r \<and> t = body_text r))"
proof (intro conjI allI impI)
  fix w :: "'a web" and f title tok req r
  assume a: "localStorage w ''firebase_token'' = Some tok" "tok \<noteq> []"
    "req = \<lparr>url = API_BASE_URL w @ ''/api/videos/upload'', http_method = ''POST'',
                 headers = [(''Authorization'', ''Bearer '' @ tok)],
                 req_body = FormBody [(''file'', FileEntry f), (''title'', TextEntry title)]\<rparr>"
    "fetch w req = Inr r" "\<not> ok r"
  from a show "uploadVideo w f title
          = (Inl (JsError ''Error'' (''Upload failed: '' @ show_nat (status r) @ '' - '' @ body_text r)),
             [req])"
    by (simp add: uploadVideo_def getAuthHeadersForFormData_def Let_def)
next
  fix r :: "'a response" and s t
  assume "''Upload failed: '' @ show_nat s @ '' - '' @ t
      = ''Upload failed: '' @ show_nat (status r) @ '' - '' @ body_text r"
  then have "show_nat s @ '' - '' @ t = show_nat (status r) @ '' - '' @ body_text r"
    by simp
  then have b: "s = status r \<and> t = body_text r"
    by (rule status_and_body_determined)
  from b show "s = status r" by simp
  from b show "t = body_text r" by simp
next
  fix w :: "(obj list) web" and tok req r
  assume a: "localStorage w ''firebase_token'' = Some tok" "tok \<noteq> []"
    "req = \<lparr>url = API_BASE_URL w @ ''/api/videos'', http_method = ''GET'',
                 headers = [(''Authorization'', ''Bearer '' @ tok), (''Content-Type'', ''application/json'')],
                 req_body = NoBody\<rparr>"
    "fetch w req = Inr r" "\<not> ok r"
  from a show "getUserVideos w
          = (Inl (JsError ''Error'' (''Failed to fetch videos: '' @ show_nat (status r) @ '' - '' @ body_text r)),
             [req])"
    by (simp add: getUserVideos_def getAuthHeaders_def Let_def)
next
  fix r :: "(obj list) response" and s t
  assume "''Failed to fetch videos: '' @ show_nat s @ '' - '' @ t
      = ''Failed to fetch videos: '' @ show_nat (status r) @ '' - '' @ body_text r"
  then have "show_nat s @ '' - '' @ t = show_nat (status r) @ '' - '' @ body_text r"
    by simp
  then have b: "s = status r \<and> t = body_text r"
    by (rule status_and_body_determined)
  from b show "s = status r" by simp
  from b show "t = body_text r" by simp
next
  fix w :: "obj web" and videoId tok req r
  assume a: "localStorage w ''firebase_token'' = Some tok" "tok \<noteq> []"
    "req = \<lparr>url = API_BASE_URL w @ ''/api/videos/'' @ videoId, http_method = ''GET'',
                 headers = [(''Authorization'', ''Bearer '' @ tok), (''Content-Type'', ''application/json'')],
                 req_body = NoBody\<rparr>"
    "fetch w req = Inr r" "\<not> ok r"
  from a show "getVideo w videoId
          = (Inl (JsError ''Error'' (''Failed to fetch video: '' @ show_nat (status r) @ '' - '' @ body_text r)),
             [req])"
    by (simp add: getVideo_def getAuthHeaders_def Let_def)
next
  fix r :: "obj response" and s t
  assume "''Failed to fetch video: '' @ show_nat s @ '' - '' @ t
      = ''Failed to fetch video: '' @ show_nat (status r) @ '' - '' @ body_text r"
  then have "show_nat s @ '' - '' @ t = show_nat (status r) @ '' - '' @ body_text r"
    by simp
  then have b: "s = status r \<and> t = body_text r"
    by (rule status_and_body_determined)
  from b show "s = status r" by simp
  from b show "t = body_text r" by simp
next
  fix w :: "'b web" and query limit tok req r
  assume a: "localStorage w ''firebase_token'' = Some tok" "tok \<noteq> []"
    "req = \<lparr>url = API_BASE_URL w @ ''/api/search/global'', http_method = ''POST'',
                 headers = [(''Authorization'', ''Bearer '' @ tok), (''Content-Type'', ''application/json'')],
                 req_body = JsonBody (Obj [(''query'', Str query),
                     (''limit'', Num (of_nat (case limit of None \<Rightarrow> 5 | Some l \<Rightarrow> l)))])\<rparr>"
    "fetch w req = Inr r" "\<not> ok r"
  from a show "globalSearch w query limit
          = (Inl (JsError ''Error'' (''Search failed: '' @ show_nat (status r) @ '' - '' @ body_text r)),
             [req])"
    by (simp add: globalSearch_def getAuthHeaders_def Let_def)
next
  fix r :: "'b response" and s t
  assume "''Search failed: '' @ show_nat s @ '' - '' @ t
      = ''Search failed: '' @ show_nat (status r) @ '' - '' @ body_text r"
  then have "show_nat s @ '' - '' @ t = show_nat (status r) @ '' - '' @ body_text r"
    by simp
  then have b: "s = status r \<and> t = body_text r"
    by (rule status_and_body_determined)
  from b show "s = status r" by simp
  from b show "t = body_text r" by simp
next
  fix w :: "'c web" and videoId query limit tok req r
  assume a: "localStorage w ''firebase_token'' = Some tok" "tok \<noteq> []"
    "req = \<lparr>url = API_BASE_URL w @ ''/api/search/video/'' @ videoId, http_method = ''POST'',
                 headers = [(''Authorization'', ''Bearer '' @ tok), (''Content-Type'', ''application/json'')],
                 req_body = JsonBody (Obj [(''query'', Str query),
                     (''limit'', Num (of_nat (case limit of None \<Rightarrow> 10 | Some l \<Rightarrow> l)))])\<rparr>"
    "fetch w req = Inr r" "\<not> ok r"
  from a show "searchInVideo w videoId query limit
          = (Inl (JsError ''Error'' (''Search failed: '' @ show_nat (status r) @ '' - '' @ body_text r)),
             [req])"
    by (simp add: searchInVideo_def getAuthHeaders_def Let_def)
next
  fix r :: "'c response" and s t
  assume "''Search failed: '' @ show_nat s @ '' - '' @ t
      = ''Search failed: '' @ show_nat (status r) @ '' - '' @ body_text r"
  then have "show_nat s @ '' - '' @ t = show_nat (status r) @ '' - '' @ body_text r"
    by simp
  then have b: "s = status r \<and> t = body_text r"
    by (rule status_and_body_determined)
  from b show "s = status r" by simp
  from b show "t = body_text r" by simp
next
  fix w :: "'d web" and videoId tok req r
  assume a: "localStorage w ''firebase_token'' = Some tok" "tok \<noteq> []"
    "req = \<lparr>url = API_BASE_URL w @ ''/api/videos/'' @ videoId @ ''/stream'', http_method = ''GET'',
                 headers = [(''Authorization'', ''Bearer '' @ tok), (''Content-Type'', ''application/json'')],
                 req_body = NoBody\<rparr>"
    "fetch w req = Inr r" "\<not> ok r"
  from a show "getVideoStreamUrl w videoId
          = (Inl (JsError ''Error'' (''Failed to get stream URL: '' @ show_nat (status r) @ '' - '' @ body_text r)),
             [req])"
    by (simp add: getVideoStreamUrl_def getAuthHeaders_def Let_def)
next
  fix r :: "'d response" and s t
  assume "''Failed to get stream URL: '' @ show_nat s @ '' - '' @ t
      = ''Failed to get stream URL: '' @ show_nat (status r) @ '' - '' @ body_text r"
  then have "show_nat s @ '' - '' @ t = show_nat (status r) @ '' - '' @ body_text r"
    by simp
  then have b: "s = status r \<and> t = body_text r"
    by (rule status_and_body_determined)
  from b show "s = status r" by simp
  from b show "t = body_text r" by simp
next
  fix w :: "'e web" and videoId tok req r
  assume a: "localStorage w ''firebase_token'' = Some tok" "tok \<noteq> []"
    "req = \<lparr>url = API_BASE_URL w @ ''/api/videos/'' @ videoId, http_method = ''DELETE'',
                 headers = [(''Authorization'', ''Bearer '' @ tok), (''Content-Type'', ''application/json'')],
                 req_body = NoBody\<rparr>"
    "fetch w req = Inr r" "\<not> ok r"
  from a show "deleteVideo w videoId
          = (Inl (JsError ''Error'' (''Failed to delete video: '' @ show_nat (status r) @ '' - '' @ body_text r)),
             [req])"
    by (simp add: deleteVideo_def getAuthHeaders_def Let_def)
next
  fix r :: "'e response" and s t
  assume "''Failed to delete video: '' @ show_nat s @ '' - '' @ t
      = ''Failed to delete video: '' @ show_nat (status r) @ '' - '' @ body_text r"
  then have "show_nat s @ '' - '' @ t = show_nat (status r) @ '' - '' @ body_text r"
    by simp
  then have b: "s = status r \<and> t = body_text r"
    by (rule status_and_body_determined)
  from b show "s = status r" by simp
  from b show "t = body_text r" by simp
next
  fix w :: "'f web" and tok req r
  assume a: "localStorage w ''firebase_token'' = Some tok" "tok \<noteq> []"
    "req = \<lparr>url = API_BASE_URL w @ ''/health'', http_method = ''GET'',
                 headers = [(''Authorization'', ''Bearer '' @ tok), (''Content-Type'', ''application/json'')],
                 req_body = NoBody\<rparr>"
    "fetch w req = Inr r" "\<not> ok r"
  from a show "testAuth w
          = (Inl (JsError ''Error'' (''Auth test failed: '' @ show_nat (status r) @ '' - '' @ body_text r)),
             [req])"
    by (simp add: testAuth_def getAuthHeaders_def Let_def)
next
  fix r :: "'f response" and s t
  assume "''Auth test failed: '' @ show_nat s @ '' - '' @ t
      = ''Auth test failed: '' @ show_nat (status r) @ '' - '' @ body_text r"
  then have "show_nat s @ '' - '' @ t = show_nat (status r) @ '' - '' @ body_text r"
    by simp
  then have b: "s = status r \<and> t = body_text r"
    by (rule status_and_body_determined)
  from b show "s = status r" by simp
  from b show "t = body_text r" by simp
qed

theorem non_2xx_throws_message_witness:
  "uploadVideo (answering_web (refusal 500 ''Server error'' :: unit response)) \<lparr>file_name = ''clip.mp4'', file_bytes = ''abc''\<rparr> ''Test''
     = (Inl (JsError ''Error'' ''Upload failed: 500 - Server error''),
        [\<lparr>url = ''https://api.example/api/videos/upload'', http_method = ''POST'',
          headers = [(''Authorization'', ''Bearer tok'')],
          req_body = FormBody [(''file'', FileEntry \<lparr>file_name = ''clip.mp4'', file_bytes = ''abc''\<rparr>),
                              (''title'', TextEntry ''Test'')]\<rparr>])
 \<and> getUserVideos (answering_web (refusal 401 ''Token expired'' :: (obj list) response))
     = (Inl (JsError ''Error'' ''Failed to fetch videos: 401 - Token expired''),
        [\<lparr>url = ''https://api.example/api/videos'', http_method = ''GET'',
          headers = [(''Authorization'', ''Bearer tok''), (''Content-Type'', ''application/json'')],
          req_body = NoBody\<rparr>])
 \<and> getVideo (answering_web (refusal 404 ''Video not found'' :: obj response)) ''7''
     = (Inl (JsError ''Error'' ''Failed to fetch video: 404 - Video not found''),
        [\<lparr>url = ''https://api.example/api/videos/7'', http_method = ''GET'',
          headers = [(''Authorization'', ''Bearer tok''), (''Content-Type'', ''application/json'')],
          req_body = NoBody\<rparr>])
 \<and> globalSearch (answering_web (refusal 404 ''Video not found'' :: unit response)) ''a dog'' None
     = (Inl (JsError ''Error'' ''Search failed: 404 - Video not found''),
        [\<lparr>url = ''https://api.example/api/search/global'', http_method = ''POST'',
          headers = [(''Authorization'', ''Bearer tok''), (''Content-Type'', ''application/json'')],
          req_body = JsonBody (Obj [(''query'', Str ''a dog''), (''limit'', Num 5)])\<rparr>])
 \<and> searchInVideo (answering_web (refusal 404 ''Video not found'' :: unit response)) ''7'' ''a dog'' (Some 3)
     = (Inl (JsError ''Error'' ''Search failed: 404 - Video not found''),
        [\<lparr>url = ''https://api.example/api/search/video/7'', http_method = ''POST'',
          headers = [(''Authorization'', ''Bearer tok''), (''Content-Type'', ''application/json'')],
          req_body = JsonBody (Obj [(''query'', Str ''a dog''), (''limit'', Num 3)])\<rparr>])
 \<and> getVideoStreamUrl (answering_web (refusal 404 ''Video not found'' :: unit response)) ''7''
     = (Inl (JsError ''Error'' ''Failed to get stream URL: 404 - Video not found''),
        [\<lparr>url = ''https://api.example/api/videos/7/stream'', http_method = ''GET'',
          headers = [(''Authorization'', ''Bearer tok''), (''Content-Type'', ''application/json'')],
          req_body = NoBody\<rparr>])
 \<and> deleteVideo (answering_web (refusal 404 ''Video not found'' :: unit response)) ''7''
     = (Inl (JsError ''Error'' ''Failed to delete video: 404 - Video not found''),
        [\<lparr>url = ''https://api.example/api/videos/7'', http_method = ''DELETE'',
          headers = [(''Authorization'', ''Bearer tok''), (''Content-Type'', ''application/json'')],
          req_body = NoBody\<rparr>])
 \<and> testAuth (answering_web (refusal 404 ''Video not found'' :: unit response))
     = (Inl (JsError ''Error'' ''Auth test failed: 404 - Video not found''),
        [\<lparr>url = ''https://api.example/health'', http_method = ''GET'',
          headers = [(''Authorization'', ''Bearer tok''), (''Content-Type'', ''application/json'')],
          req_body = NoBody\<rparr>])"
proof -
  have tok: "localStorage (answering_web r) ''firebase_token'' = Some ''tok''" for r :: "'j response"
    by (simp add: answering_web_def)
  have ne: "''tok'' \<noteq> []"
    by simp
  have answered: "fetch (answering_web r) req = Inr r" for r :: "'j response" and req
    by (simp add: answering_web_def)
  have refused: "\<not> ok (refusal 404 t)" "\<not> ok (refusal 500 t)" "\<not> ok (refusal 401 t)" for t
    by (simp_all add: ok_def refusal_def)
  have digits: "show_nat 500 = ''500''" "show_nat 401 = ''401''"
    by (simp_all add: show_nat.simps digit_char_def)
  note m1 = non_2xx_throws_message [THEN conjunct1, rule_format, THEN conjunct1,
      OF tok ne refl answered refused(2)]
  note m2 = non_2xx_throws_message [THEN conjunct2, THEN conjunct1, rule_format, THEN conjunct1,
      OF tok ne refl answered refused(3)]
  note m3 = non_2xx_throws_message [THEN conjunct2, THEN conjunct2, THEN conjunct1, rule_format, THEN conjunct1,
      OF tok ne refl answered refused(1)]
  note m4 = non_2xx_throws_message [THEN conjunct2, THEN conjunct2, THEN conjunct2, THEN conjunct1, rule_format, THEN conjunct1,
      OF tok ne refl answered refused(1)]
  note m5 = non_2xx_throws_message [THEN conjunct2, THEN conjunct2, THEN conjunct2, THEN conjunct2, THEN conjunct1, rule_format, THEN conjunct1,
      OF tok ne refl answered refused(1)]
  note m6 = non_2xx_throws_message [THEN conjunct2, THEN conjunct2, THEN conjunct2, THEN conjunct2, THEN conjunct2, THEN conjunct1, rule_format, THEN conjunct1,
      OF tok ne refl answered refused(1)]
  note m7 = non_2xx_throws_message [THEN conjunct2, THEN conjunct2, THEN conjunct2, THEN conjunct2, THEN conjunct2, THEN conjunct2, THEN conjunct1, rule_format, THEN conjunct1,
      OF tok ne refl answered refused(1)]
  note m8 = non_2xx_throws_message [THEN conjunct2, THEN conjunct2, THEN conjunct2, THEN conjunct2, THEN conjunct2, THEN conjunct2, THEN conjunct2, rule_format, THEN conjunct1,
      OF tok ne refl answered refused(1)]
  show ?thesis
    unfolding m1 m2 m3 m4 m5 m6 m7 m8
    by (simp add: API_BASE_URL_def answering_web_def refusal_def show_nat_404 digits)
qed

text \<open>C2 as stated fails: the error thrown on a 404 has the status in its message only;
  read as a property of the error, the status is \<^verbatim>\<open>undefined\<close>, not 404.\<close>

theorem thrown_error_has_no_status:
  "fst (deleteVideo (answering_web (refusal 404 ''Video not found'' :: unit response)) ''7'')
     = Inl (JsError ''Error'' ''Failed to delete video: 404 - Video not found'')
 \<and> error_prop (JsError ''Error'' ''Failed to delete video: 404 - Video not found'') ''status''
     = Undefined
 \<and> error_prop (JsError ''Error'' ''Failed to delete video: 404 - Video not found'') ''status''
     \<noteq> Num 404
 \<and> error_prop (JsError ''Error'' ''Failed to delete video: 404 - Video not found'') ''message''
     = Str ''Failed to delete video: 404 - Video not found''"
  by (simp add: deleteVideo_def getAuthHeaders_def API_BASE_URL_def answering_web_def refusal_def
      ok_def error_prop_def show_nat_404)

section \<open>The session provider\<close>

lemma authStateChanged_both_or_neither:
  "loading (authStateChanged u r st) = False \<and>
   (user (authStateChanged u r st) = None \<longleftrightarrow> token (authStateChanged u r st) = None)"
  by (simp add: authStateChanged_def Let_def split: option.splits sum.splits)

lemma authStateChanged_signed_in:
  "user (authStateChanged (Some usr) (Inr t) st) = Some usr \<and>
   token (authStateChanged (Some usr) (Inr t) st) = Some t \<and>
   storage (authStateChanged (Some usr) (Inr t) st) ''firebase_token'' = Some t"
  by (simp add: authStateChanged_def Let_def)

lemma authStateChanged_signed_out:
  "user (authStateChanged None r st) = None \<and>
   token (authStateChanged None r st) = None \<and>
   storage (authStateChanged None r st) ''firebase_token'' = None"
  by (simp add: authStateChanged_def Let_def)

lemma signed_in_state_fields:
  "user signed_in_state = Some \<lparr>uid = ''u1'', email = ''ann@example.org''\<rparr>"
  "token signed_in_state = Some ''tok''"
  "storage signed_in_state ''firebase_token'' = Some ''tok''"
  "loading signed_in_state = False"
  "in_flight signed_in_state = 0"
  by (simp_all add: signed_in_state_def authStateChanged_def initial_state_def Let_def)

lemma signed_in_state_no_refresh: "signed_in_state\<lparr>in_flight := 0\<rparr> = signed_in_state"
  by (simp add: signed_in_state_def authStateChanged_def initial_state_def Let_def)

lemma fire_user_has_token:
  assumes "user st \<noteq> None \<longrightarrow> token st \<noteq> None" and "fire e st = Some st'"
  shows "user st' \<noteq> None \<longrightarrow> token st' \<noteq> None"
proof (cases e)
  case (AuthStateChanged u r)
  with assms(2) authStateChanged_both_or_neither [of u r st] show ?thesis by auto
next
  case RefreshTimer
  with assms show ?thesis by (auto split: if_splits)
next
  case (RefreshSettled r)
  with assms show ?thesis by (auto simp: refreshToken_def split: if_splits sum.splits)
next
  case (Logout r)
  with assms show ?thesis by (simp add: logout_def)
qed

lemma run_user_has_token:
  "run evs st = Some st' \<Longrightarrow> (user st \<noteq> None \<longrightarrow> token st \<noteq> None)
     \<Longrightarrow> (user st' \<noteq> None \<longrightarrow> token st' \<noteq> None)"
proof (induction evs arbitrary: st)
  case Nil
  then show ?case by simp
next
  case (Cons e es)
  from Cons.prems(1) obtain st1 where f: "fire e st = Some st1" and r: "run es st1 = Some st'"
    by (auto split: option.splits)
  from fire_user_has_token [OF Cons.prems(2) f] have "user st1 \<noteq> None \<longrightarrow> token st1 \<noteq> None" .
  from Cons.IH [OF r this] show ?case .
qed

lemma refreshToken_keeps_pairing:
  "user st \<noteq> None \<Longrightarrow> (user st = None \<longleftrightarrow> token st = None)
     \<Longrightarrow> (user (refreshToken r st) = None \<longleftrightarrow> token (refreshToken r st) = None)"
  by (auto simp: refreshToken_def split: sum.splits)

lemma fire_calm_step:
  assumes "fire e st = Some st'" and "\<not> (clears e \<and> 0 < in_flight st)"
    and "user st = None \<longleftrightarrow> token st = None" and "0 < in_flight st \<longrightarrow> user st \<noteq> None"
  shows "(user st' = None \<longleftrightarrow> token st' = None) \<and> (0 < in_flight st' \<longrightarrow> user st' \<noteq> None)"
proof (cases e)
  case (AuthStateChanged u r)
  show ?thesis
  proof (cases u)
    case None
    with AuthStateChanged assms show ?thesis
      by (auto simp: authStateChanged_def Let_def)
  next
    case (Some usr)
    with AuthStateChanged assms show ?thesis
      by (cases r) (auto simp: authStateChanged_def Let_def)
  qed
next
  case RefreshTimer
  with assms show ?thesis by (auto split: if_splits)
next
  case (RefreshSettled r)
  with assms show ?thesis by (auto simp: refreshToken_def split: if_splits sum.splits)
next
  case (Logout r)
  with assms show ?thesis by (auto simp: logout_def)
qed

lemma calm_keeps_pairing:
  "calm evs st \<Longrightarrow> run evs st = Some st' \<Longrightarrow> (user st = None \<longleftrightarrow> token st = None)
     \<Longrightarrow> (0 < in_flight st \<longrightarrow> user st \<noteq> None) \<Longrightarrow> (user st' = None \<longleftrightarrow> token st' = None)"
proof (induction evs arbitrary: st)
  case Nil
  then show ?case by simp
next
  case (Cons e es)
  from Cons.prems(1) obtain st1 where f: "fire e st = Some st1"
    and q: "\<not> (clears e \<and> 0 < in_flight st)" and c: "calm es st1"
    by (auto split: option.splits if_splits)
  from Cons.prems(2) f have r: "run es st1 = Some st'" by simp
  note step = fire_calm_step [OF f q Cons.prems(3) Cons.prems(4)]
  from Cons.IH [OF c r step [THEN conjunct1] step [THEN conjunct2]] show ?case .
qed

text \<open>Where the pairing of user and token does hold: a user that is set has a token, in
  every state reached; and user and token are both set or both cleared in every state
  reached by a calm run.\<close>

lemma user_has_token_when_reached:
  "run evs (initial_state ls) = Some st \<Longrightarrow> user st \<noteq> None \<Longrightarrow> token st \<noteq> None"
  using run_user_has_token [of evs "initial_state ls" st] by (simp add: initial_state_def)

lemma pairing_when_calm:
  "calm evs (initial_state ls) \<Longrightarrow> run evs (initial_state ls) = Some st
     \<Longrightarrow> (user st = None \<longleftrightarrow> token st = None)"
  using calm_keeps_pairing [of evs "initial_state ls" st] by (simp add: initial_state_def)

text \<open>
  C3, as the code has it. \<^verbatim>\<open>logout\<close> only awaits the provider's \<^verbatim>\<open>signOut\<close>: it settles as
  that call does and writes neither the session state nor local storage, whether the call
  succeeds or fails. The user, the token and the persisted credential are cleared by the
  provider's signed-out notification, from any state; so they are cleared after a sign-out
  that succeeded and was followed by that notification.
\<close>

theorem sign_out_clears_on_notification:
  "(\<forall>r st. logout r st = (r, st))
 \<and> (\<forall>r st. user (authStateChanged None r st) = None
        \<and> token (authStateChanged None r st) = None
        \<and> storage (authStateChanged None r st) ''firebase_token'' = None)
 \<and> (\<forall>r st st'. run [Logout (Inr ()), AuthStateChanged None r] st = Some st' \<longrightarrow>
        user st' = None \<and> token st' = None \<and> storage st' ''firebase_token'' = None)"
  by (auto simp: logout_def authStateChanged_signed_out)

theorem sign_out_clears_on_notification_witness:
  "run [Logout (Inr ()), AuthStateChanged None (Inr '''')] signed_in_state
     = Some (authStateChanged None (Inr '''') signed_in_state)
 \<and> user (authStateChanged None (Inr '''') signed_in_state) = None
 \<and> token (authStateChanged None (Inr '''') signed_in_state) = None
 \<and> storage (authStateChanged None (Inr '''') signed_in_state) ''firebase_token'' = None"
proof -
  have r: "run [Logout (Inr ()), AuthStateChanged None (Inr '''')] signed_in_state
     = Some (authStateChanged None (Inr '''') signed_in_state)"
    by (simp add: logout_def)
  from sign_out_clears_on_notification have
    "\<forall>r st st'. run [Logout (Inr ()), AuthStateChanged None r] st = Some st' \<longrightarrow>
        user st' = None \<and> token st' = None \<and> storage st' ''firebase_token'' = None"
    by (elim conjE)
  from this [rule_format, OF r] r show ?thesis by simp
qed

text \<open>C3 as stated fails: a signed-in session whose remote sign-out call fails keeps its
  user, its token and the persisted credential.\<close>

theorem logout_failure_clears_nothing:
  "fst (logout (Inl (JsError ''FirebaseError'' ''auth/network-request-failed'')) signed_in_state)
     = Inl (JsError ''FirebaseError'' ''auth/network-request-failed'')
 \<and> user (snd (logout (Inl (JsError ''FirebaseError'' ''auth/network-request-failed''))
                signed_in_state))
     = Some \<lparr>uid = ''u1'', email = ''ann@example.org''\<rparr>
 \<and> token (snd (logout (Inl (JsError ''FirebaseError'' ''auth/network-request-failed''))
                 signed_in_state))
     = Some ''tok''
 \<and> storage (snd (logout (Inl (JsError ''FirebaseError'' ''auth/network-request-failed''))
                   signed_in_state)) ''firebase_token''
     = Some ''tok''"
  by (simp add: logout_def signed_in_state_fields)

text \<open>
  C4. Every completed state-change callback leaves user and token both set or both
  cleared, with \<^verbatim>\<open>loading\<close> false, and the pairing holds in every calm run (above). It does
  not hold in every state the provider can reach. In the run below a user signs in, the
  interval starts a refresh, the provider reports the sign-out while the refresh waits for
  its token, and the refresh then settles: it sets the token and stores the credential again,
  in a session that has no user.
\<close>

theorem refresh_after_sign_out_sets_token_alone:
  "run [AuthStateChanged (Some \<lparr>uid = ''u1'', email = ''ann@example.org''\<rparr>) (Inr ''tok''),
        RefreshTimer,
        AuthStateChanged None (Inr ''''),
        RefreshSettled (Inr ''tok2'')] (initial_state Map.empty)
     = Some \<lparr>user = None, token = Some ''tok2'', loading = False,
             storage = [''firebase_token'' \<mapsto> ''tok2''],
             console = [ConsoleLog ''User authenticated, token set'',
                        ConsoleLog ''User signed out, token cleared''],
             in_flight = 0\<rparr>
 \<and> \<not> calm [AuthStateChanged (Some \<lparr>uid = ''u1'', email = ''ann@example.org''\<rparr>) (Inr ''tok''),
             RefreshTimer,
             AuthStateChanged None (Inr ''''),
             RefreshSettled (Inr ''tok2'')] (initial_state Map.empty)"
  by (simp add: authStateChanged_def refreshToken_def initial_state_def Let_def)

text \<open>
  C8. A token refresh that fails writes one line to the console and nothing else: the
  user, the token, the persisted credential and \<^verbatim>\<open>loading\<close> are as they were, so the
  session is not signed out.
\<close>

theorem refresh_failure_only_logged:
  "(\<forall>e st. refreshToken (Inl e) st
        = st\<lparr>console := console st @ [ConsoleError ''Error refreshing token:'' e]\<rparr>)
 \<and> (\<forall>e st st'. fire (RefreshSettled (Inl e)) st = Some st' \<longrightarrow>
        user st' = user st \<and> token st' = token st \<and> storage st' = storage st
        \<and> loading st' = loading st
        \<and> console st' = console st @ [ConsoleError ''Error refreshing token:'' e])"
  by (auto simp: refreshToken_def split: if_splits)

theorem refresh_failure_only_logged_witness:
  "fire (RefreshSettled (Inl (JsError ''FirebaseError'' ''auth/network-request-failed'')))
     (signed_in_state\<lparr>in_flight := 1\<rparr>)
     = Some (refreshToken (Inl (JsError ''FirebaseError'' ''auth/network-request-failed''))
              signed_in_state)
 \<and> user (refreshToken (Inl (JsError ''FirebaseError'' ''auth/network-request-failed''))
           signed_in_state)
     = Some \<lparr>uid = ''u1'', email = ''ann@example.org''\<rparr>
 \<and> token (refreshToken (Inl (JsError ''FirebaseError'' ''auth/network-request-failed''))
            signed_in_state)
     = Some ''tok''
 \<and> storage (refreshToken (Inl (JsError ''FirebaseError'' ''auth/network-request-failed''))
              signed_in_state) ''firebase_token''
     = Some ''tok''"
proof -
  let ?e = "JsError ''FirebaseError'' ''auth/network-request-failed''"
  have f: "fire (RefreshSettled (Inl ?e)) (signed_in_state\<lparr>in_flight := 1\<rparr>)
     = Some (refreshToken (Inl ?e) signed_in_state)"
    using signed_in_state_fields(5) by (simp add: refreshToken_def)
  from refresh_failure_only_logged have
    "\<forall>e st st'. fire (RefreshSettled (Inl e)) st = Some st' \<longrightarrow>
        user st' = user st \<and> token st' = token st \<and> storage st' = storage st
        \<and> loading st' = loading st
        \<and> console st' = console st @ [ConsoleError ''Error refreshing token:'' e]"
    by (elim conjE)
  from this [rule_format, OF f] f show ?thesis
    by (simp add: signed_in_state_fields)
qed

section \<open>Listing videos\<close>








section \<open>Deleting a video\<close>

lemma handleDelete_failure:
  assumes "fst (deleteVideo w videoId) = Inl err"
  shows "videos (fst (handleDelete w videoId st)) = videos st
    \<and> deleteError (fst (handleDelete w videoId st))
        = (if message err = [] then ''Failed to delete video.'' else message err)
    \<and> deletingId (fst (handleDelete w videoId st)) = None"
  using assms by (cases "deleteVideo w videoId") (simp add: handleDelete_def Let_def)

text \<open>
  C6. When \<^verbatim>\<open>deleteVideo\<close> fails, \<^verbatim>\<open>handleDelete\<close> leaves the list of videos as it was and
  puts the error's message (never an empty text) into \<^verbatim>\<open>deleteError\<close>, which the page
  shows. When the failure is a response outside 200 to 299, a 404 for an id already deleted
  for one, that message carries the response's status and body text.
\<close>

theorem delete_failure_surfaced:
  "(\<forall>(w :: 'a web) videoId st err. fst (deleteVideo w videoId) = Inl err \<longrightarrow>
        videos (fst (handleDelete w videoId st)) = videos st
      \<and> deleteError (fst (handleDelete w videoId st))
          = (if message err = [] then ''Failed to delete video.'' else message err)
      \<and> deleteError (fst (handleDelete w videoId st)) \<noteq> []
      \<and> deletingId (fst (handleDelete w videoId st)) = None)
 \<and> (\<forall>(w :: 'b web) videoId st req r. snd (deleteVideo w videoId) = [req] \<longrightarrow>
        fetch w req = Inr r \<longrightarrow> \<not> ok r \<longrightarrow>
        videos (fst (handleDelete w videoId st)) = videos st
      \<and> deleteError (fst (handleDelete w videoId st))
          = ''Failed to delete video: '' @ show_nat (status r) @ '' - '' @ body_text r)"
proof (intro conjI allI impI)
  fix w :: "'a web" and videoId st err
  assume f: "fst (deleteVideo w videoId) = Inl err"
  note h = handleDelete_failure [OF f, of st]
  from h show "videos (fst (handleDelete w videoId st)) = videos st" by simp
  from h show "deleteError (fst (handleDelete w videoId st))
          = (if message err = [] then ''Failed to delete video.'' else message err)" by simp
  from h show "deleteError (fst (handleDelete w videoId st)) \<noteq> []" by simp
  from h show "deletingId (fst (handleDelete w videoId st)) = None" by simp
next
  fix w :: "'b web" and videoId st req r
  assume a: "snd (deleteVideo w videoId) = [req]" "fetch w req = Inr r" "\<not> ok r"
  note h = handleDelete_failure [OF deleteVideo_non_2xx [OF a], of st]
  from h show "videos (fst (handleDelete w videoId st)) = videos st" by simp
  from h show "deleteError (fst (handleDelete w videoId st))
          = ''Failed to delete video: '' @ show_nat (status r) @ '' - '' @ body_text r" by simp
qed

theorem delete_failure_surfaced_witness:
  "snd (deleteVideo (answering_web \<lparr>status = 404, body_text = ''Video not found'',
                                     json = Inr ()\<rparr>) ''7'')
     = [\<lparr>url = ''https://api.example/api/videos/7'', http_method = ''DELETE'',
         headers = [(''Authorization'', ''Bearer tok''), (''Content-Type'', ''application/json'')],
         req_body = NoBody\<rparr>]
 \<and> \<not> ok \<lparr>status = 404, body_text = ''Video not found'', json = Inr ()\<rparr>
 \<and> videos (fst (handleDelete (answering_web \<lparr>status = 404, body_text = ''Video not found'',
                                              json = Inr ()\<rparr>) ''7'' library_with_7))
     = [video_7]
 \<and> deleteError (fst (handleDelete (answering_web \<lparr>status = 404, body_text = ''Video not found'',
                                                   json = Inr ()\<rparr>) ''7'' library_with_7))
     = ''Failed to delete video: 404 - Video not found''"
proof -
  let ?r = "\<lparr>status = 404, body_text = ''Video not found'', json = Inr ()\<rparr>"
  let ?req = "\<lparr>url = ''https://api.example/api/videos/7'', http_method = ''DELETE'',
         headers = [(''Authorization'', ''Bearer tok''), (''Content-Type'', ''application/json'')],
         req_body = NoBody\<rparr>"
  have issued: "snd (deleteVideo (answering_web ?r) ''7'') = [?req]"
    by (simp add: deleteVideo_def getAuthHeaders_def API_BASE_URL_def answering_web_def ok_def)
  have answered: "fetch (answering_web ?r) ?req = Inr ?r"
    by (simp add: answering_web_def)
  have refused: "\<not> ok ?r"
    by (simp add: ok_def)
  note inst = delete_failure_surfaced [THEN conjunct2, rule_format, OF issued answered refused]
  from inst [of library_with_7] issued refused show ?thesis
    by (simp add: show_nat_404 library_with_7_def)
qed

section \<open>Uploading a video\<close>

lemma uploadVideo_request:
  assumes "localStorage w ''firebase_token'' = Some tok" and "tok \<noteq> []"
  shows "snd (uploadVideo w f t)
     = [\<lparr>url = API_BASE_URL w @ ''/api/videos/upload'', http_method = ''POST'',
         headers = [(''Authorization'', ''Bearer '' @ tok)],
         req_body = FormBody [(''file'', FileEntry f), (''title'', TextEntry t)]\<rparr>]"
  using assms
  by (auto simp: uploadVideo_def getAuthHeadersForFormData_def Let_def split: sum.splits)

lemma handleUpload_success:
  assumes "selected_file st = Some f" and "upload_title st \<noteq> []"
    and "fst (uploadVideo w f (upload_title st)) = Inr result"
  shows "fst (snd (handleUpload w now_iso st))
     = Some \<lparr>title = upload_title st,
             thumbnail = ''/placeholder.svg?height=200&width=300&query=''
                           @ encodeURIComponent (upload_title st) @ '' video thumbnail'',
             duration = ''0:00'', indexingStatus = ''PENDING'', createdAt = today now_iso,
             minioPath = ''/videos/'' @ toString (video_id result)\<rparr>"
  using assms
  by (cases "uploadVideo w f (upload_title st)") (simp add: handleUpload_def Let_def)

text \<open>
  C7. With a credential stored, \<^verbatim>\<open>uploadVideo\<close> issues one POST to \<^verbatim>\<open>/api/videos/upload\<close>
  whose body is a form with the fields \<^verbatim>\<open>file\<close> and \<^verbatim>\<open>title\<close> and whose only header is
  \<^verbatim>\<open>Authorization: Bearer\<close> with the credential: no \<^verbatim>\<open>Content-Type\<close>. When the upload
  returns an object with a \<^verbatim>\<open>video_id\<close>, the entry \<^verbatim>\<open>handleUpload\<close> hands to \<^verbatim>\<open>onUpload\<close>
  has \<^verbatim>\<open>indexingStatus\<close> "PENDING" and \<^verbatim>\<open>minioPath\<close> "/videos/" followed by that id.
\<close>

theorem upload_request_and_entry:
  "(\<forall>(w :: 'a web) f t tok. localStorage w ''firebase_token'' = Some tok \<longrightarrow> tok \<noteq> [] \<longrightarrow>
        snd (uploadVideo w f t)
          = [\<lparr>url = API_BASE_URL w @ ''/api/videos/upload'', http_method = ''POST'',
              headers = [(''Authorization'', ''Bearer '' @ tok)],
              req_body = FormBody [(''file'', FileEntry f), (''title'', TextEntry t)]\<rparr>]
      \<and> map_of [(''Authorization'', ''Bearer '' @ tok)] ''Content-Type'' = None)
 \<and> (\<forall>w now_iso st f result. selected_file st = Some f \<longrightarrow> upload_title st \<noteq> [] \<longrightarrow>
        fst (uploadVideo w f (upload_title st)) = Inr result \<longrightarrow>
        map_option indexingStatus (fst (snd (handleUpload w now_iso st))) = Some ''PENDING''
      \<and> map_option minioPath (fst (snd (handleUpload w now_iso st)))
          = Some (''/videos/'' @ toString (video_id result))
      \<and> map_option title (fst (snd (handleUpload w now_iso st))) = Some (upload_title st))"
  by (simp add: uploadVideo_request handleUpload_success)

theorem upload_request_and_entry_witness:
  "snd (uploadVideo (answering_web upload_response)
          \<lparr>file_name = ''clip.mp4'', file_bytes = ''abc''\<rparr> ''Test'')
     = [\<lparr>url = ''https://api.example/api/videos/upload'', http_method = ''POST'',
         headers = [(''Authorization'', ''Bearer tok'')],
         req_body = FormBody [(''file'', FileEntry \<lparr>file_name = ''clip.mp4'', file_bytes = ''abc''\<rparr>),
                              (''title'', TextEntry ''Test'')]\<rparr>]
 \<and> fst (uploadVideo (answering_web upload_response)
          \<lparr>file_name = ''clip.mp4'', file_bytes = ''abc''\<rparr> ''Test'')
     = Inr \<lparr>video_id = StrId ''42''\<rparr>
 \<and> map_option indexingStatus
      (fst (snd (handleUpload (answering_web upload_response) ''2024-01-01T10:00:00.000Z''
                   upload_form)))
     = Some ''PENDING''
 \<and> map_option minioPath
      (fst (snd (handleUpload (answering_web upload_response) ''2024-01-01T10:00:00.000Z''
                   upload_form)))
     = Some ''/videos/42''"
proof -
  let ?w = "answering_web upload_response"
  let ?f = "\<lparr>file_name = ''clip.mp4'', file_bytes = ''abc''\<rparr>"
  have tok: "localStorage ?w ''firebase_token'' = Some ''tok''" and ne: "''tok'' \<noteq> []"
    by (simp_all add: answering_web_def)
  have sel: "selected_file upload_form = Some ?f" and ti: "upload_title upload_form \<noteq> []"
    and ti': "upload_title upload_form = ''Test''"
    by (simp_all add: upload_form_def)
  have up: "fst (uploadVideo ?w ?f (upload_title upload_form)) = Inr \<lparr>video_id = StrId ''42''\<rparr>"
    by (simp add: uploadVideo_def getAuthHeadersForFormData_def answering_web_def
        upload_response_def ok_def upload_form_def)
  note a = upload_request_and_entry [THEN conjunct1, rule_format, OF tok ne, of ?f "''Test''"]
  note b = upload_request_and_entry [THEN conjunct2, rule_format, OF sel ti up,
      of "''2024-01-01T10:00:00.000Z''"]
  from a b up ti' show ?thesis
    by (simp add: toString_def API_BASE_URL_def answering_web_def)
qed

section \<open>Presenting the status\<close>

text \<open>
  C9. Each of \<^verbatim>\<open>getStatusIcon\<close>, \<^verbatim>\<open>getStatusText\<close> and \<^verbatim>\<open>getStatusVariant\<close> is a function of
  the status alone and returns a value, not \<^verbatim>\<open>undefined\<close>, for each of PENDING, INDEXING,
  COMPLETED and FAILED; the values are those of the table below. The handlers of the
  library that change the list of videos rewrite no entry: \<^verbatim>\<open>handleDelete\<close> only drops
  entries and \<^verbatim>\<open>handleVideoUpload\<close> only puts one in front.
\<close>

theorem status_presentation_exhaustive:
  "(\<forall>s \<in> set [''PENDING'', ''INDEXING'', ''COMPLETED'', ''FAILED''].
        getStatusIcon s \<noteq> None \<and> getStatusText s \<noteq> None \<and> getStatusVariant s \<noteq> None)
 \<and> getStatusText ''COMPLETED'' = Some ''Ready''
 \<and> getStatusText ''INDEXING'' = Some ''Processing...''
 \<and> getStatusText ''PENDING'' = Some ''Queued''
 \<and> getStatusText ''FAILED'' = Some ''Failed''
 \<and> getStatusVariant ''COMPLETED'' = Some ''default''
 \<and> getStatusVariant ''INDEXING'' = Some ''secondary''
 \<and> getStatusVariant ''PENDING'' = Some ''outline''
 \<and> getStatusVariant ''FAILED'' = Some ''destructive''
 \<and> map_option component (getStatusIcon ''COMPLETED'') = Some ''CheckCircle''
 \<and> map_option component (getStatusIcon ''INDEXING'') = Some ''Clock''
 \<and> map_option component (getStatusIcon ''PENDING'') = Some ''Clock''
 \<and> map_option component (getStatusIcon ''FAILED'') = Some ''AlertCircle''
 \<and> (\<forall>(w :: 'a web) videoId st.
        set (videos (fst (handleDelete w videoId st))) \<subseteq> set (videos st))
 \<and> (\<forall>now_ms newVideo st. tl (videos (handleVideoUpload now_ms newVideo st)) = videos st)"
proof -
  have del: "set (videos (fst (handleDelete w videoId st))) \<subseteq> set (videos st)"
    for w :: "'a web" and videoId st
    by (cases "deleteVideo w videoId")
      (auto simp: handleDelete_def Let_def split: sum.splits)
  show ?thesis
    by (simp add: getStatusIcon_def getStatusText_def getStatusVariant_def
        handleVideoUpload_def Let_def del)
qed

theorem status_presentation_exhaustive_witness:
  "''FAILED'' \<in> set [''PENDING'', ''INDEXING'', ''COMPLETED'', ''FAILED'']
 \<and> getStatusIcon ''FAILED'' \<noteq> None
 \<and> getStatusText ''FAILED'' \<noteq> None
 \<and> getStatusVariant ''FAILED'' \<noteq> None"
proof -
  have m: "''FAILED'' \<in> set [''PENDING'', ''INDEXING'', ''COMPLETED'', ''FAILED'']"
    by simp
  from status_presentation_exhaustive [THEN conjunct1, THEN bspec, OF m] m
  show ?thesis by simp
qed

section \<open>Converting search hits\<close>

text \<open>
  C10. The conversion of \<^verbatim>\<open>GlobalSearch\<close> keeps the number and the order of the hits, and
  the entry made from a hit has \<^verbatim>\<open>indexingStatus\<close> "COMPLETED", \<^verbatim>\<open>duration\<close> "0:00", an
  empty \<^verbatim>\<open>minioPath\<close>, the hit's \<^verbatim>\<open>video_id\<close> as text for its \<^verbatim>\<open>id\<close>, the hit's
  \<^verbatim>\<open>similarity\<close> for its \<^verbatim>\<open>relevanceScore\<close> and the hit's \<^verbatim>\<open>timestamp\<close> for its
  \<^verbatim>\<open>matchedTimestamp\<close>. Nothing of the hit says how far the server has indexed the video,
  and nothing else is consulted.
\<close>

theorem converted_hits_shape:
  "length (convert_results now_iso results) = length results
 \<and> (\<forall>i < length results.
        indexingStatus (convert_results now_iso results ! i) = ''COMPLETED''
      \<and> duration (convert_results now_iso results ! i) = ''0:00''
      \<and> minioPath (convert_results now_iso results ! i) = ''''
      \<and> item_id (convert_results now_iso results ! i) = toString (video_id (results ! i))
      \<and> relevanceScore (convert_results now_iso results ! i) = similarity (results ! i)
      \<and> matchedTimestamp (convert_results now_iso results ! i) = timestamp (results ! i)
      \<and> title (convert_results now_iso results ! i) = hit_title (results ! i))"
  by (simp add: convert_results_def to_SearchResult_def)

theorem converted_hits_shape_witness:
  "(1 :: nat) < length two_hits
 \<and> length (convert_results ''2024-01-01T10:00:00.000Z'' two_hits) = 2
 \<and> indexingStatus (convert_results ''2024-01-01T10:00:00.000Z'' two_hits ! 1) = ''COMPLETED''
 \<and> duration (convert_results ''2024-01-01T10:00:00.000Z'' two_hits ! 1) = ''0:00''
 \<and> minioPath (convert_results ''2024-01-01T10:00:00.000Z'' two_hits ! 1) = ''''
 \<and> item_id (convert_results ''2024-01-01T10:00:00.000Z'' two_hits ! 1) = ''3''
 \<and> relevanceScore (convert_results ''2024-01-01T10:00:00.000Z'' two_hits ! 1) = 1 / 2
 \<and> matchedTimestamp (convert_results ''2024-01-01T10:00:00.000Z'' two_hits ! 1) = 90"
proof -
  have l: "(1 :: nat) < length two_hits" and l2: "length two_hits = 2"
    by (simp_all add: two_hits_def)
  have h: "two_hits ! Suc 0 = \<lparr>video_id = NumId 3, hit_title = ''Dog'', similarity = 1 / 2,
      timestamp = 90\<rparr>"
    by (simp add: two_hits_def)
  have s: "toString (NumId 3) = ''3''"
    by (simp add: toString_def show_int_def show_nat.simps digit_char_def)
  note a = converted_hits_shape [THEN conjunct1, of "''2024-01-01T10:00:00.000Z''" two_hits]
  note b = converted_hits_shape [THEN conjunct2, rule_format, OF l,
      of "''2024-01-01T10:00:00.000Z''"]
  from a b l l2 show ?thesis by (simp add: h s)
qed


end
